theory Spec2Isabelle
  imports Main
begin

section \<open>Python values the service handles\<close>

text \<open>
  The service is a single module, \<^verbatim>\<open>main.py\<close>: a startup hook \<^verbatim>\<open>load_model\<close>, the
  health endpoint \<^verbatim>\<open>health_check\<close> and the upload endpoint \<^verbatim>\<open>transcribe\<close>.

  Strings are \<^typ>\<open>string\<close>, one \<^typ>\<open>char\<close> per character, read as ASCII: the case
  mapping and the white space of \<^verbatim>\<open>str.lower\<close> and \<^verbatim>\<open>str.strip\<close> are those of the
  ASCII range. Uploaded bytes are a \<^typ>\<open>char list\<close> as well.
\<close>

type_synonym path = string
type_synonym bytes = "char list"

text \<open>
  An instance of \<^verbatim>\<open>Exception\<close>: its class name and the text \<^verbatim>\<open>str(e)\<close> gives. Only
  such instances are modelled; \<^verbatim>\<open>except Exception\<close> catches every one of them.
\<close>

datatype pyexc = PyExc (exc_class: string) (exc_str: string)

datatype pyval = PyNone | PyStr string

text \<open>A dictionary with string keys, in insertion order.\<close>

type_synonym pydict = "(string \<times> pyval) list"

definition dict_get :: "pydict \<Rightarrow> string \<Rightarrow> pyval \<Rightarrow> pyval" where
  "dict_get d k dflt = (case map_of d k of Some v \<Rightarrow> v | None \<Rightarrow> dflt)"

subsection \<open>String methods\<close>

text \<open>\<^verbatim>\<open>str.lower\<close> on ASCII: the 26 capital letters change, nothing else does.\<close>

definition lower_char :: "char \<Rightarrow> char" where
  "lower_char c =
     (case map_of (zip ''ABCDEFGHIJKLMNOPQRSTUVWXYZ'' ''abcdefghijklmnopqrstuvwxyz'') c of
        Some l \<Rightarrow> l
      | None \<Rightarrow> c)"

definition lower :: "string \<Rightarrow> string" where
  "lower s = map lower_char s"

text \<open>\<^verbatim>\<open>str.isspace\<close> on ASCII: tab, line feed, VT, FF, CR, the separators 28 to 31, space.\<close>

definition isspace :: "char \<Rightarrow> bool" where
  "isspace c = (let n = (of_char c :: nat) in (9 \<le> n \<and> n \<le> 13) \<or> (28 \<le> n \<and> n \<le> 32))"

definition strip :: "string \<Rightarrow> string" where
  "strip s = rev (dropWhile isspace (rev (dropWhile isspace s)))"

fun str_join :: "string \<Rightarrow> string list \<Rightarrow> string" where
  "str_join sep [] = []"
| "str_join sep [x] = x"
| "str_join sep (x # y # ys) = x @ sep @ str_join sep (y # ys)"

text \<open>\<^verbatim>\<open>s.rfind(c)\<close>: the index of the last occurrence, \<open>None\<close> for Python's \<open>-1\<close>.\<close>

fun rfind :: "char \<Rightarrow> string \<Rightarrow> nat option" where
  "rfind c [] = None"
| "rfind c (x # xs) =
     (case rfind c xs of
        Some i \<Rightarrow> Some (Suc i)
      | None \<Rightarrow> if x = c then Some 0 else None)"

fun split_on :: "char \<Rightarrow> string \<Rightarrow> string list" where
  "split_on c [] = [[]]"
| "split_on c (x # xs) =
     (if x = c then [] # split_on c xs
      else (case split_on c xs of
              [] \<Rightarrow> [[x]]
            | y # ys \<Rightarrow> (x # y) # ys))"

definition digit_char :: "nat \<Rightarrow> char" where
  "digit_char d = ''0123456789'' ! d"

fun str_nat :: "nat \<Rightarrow> string" where
  "str_nat n = (if n < 10 then [digit_char n] else str_nat (n div 10) @ [digit_char (n mod 10)])"

declare str_nat.simps [simp del]

subsection \<open>\<^verbatim>\<open>pathlib\<close>: the suffix of a path\<close>

text \<open>
  \<^verbatim>\<open>Path(s).name\<close> on a POSIX host is the last component of \<open>s\<close> split at \<open>/\<close>, empty
  components and \<open>.\<close> components dropped, and the empty string when none is left.
  \<^verbatim>\<open>Path(s).suffix\<close> is the name from its last dot on, when that dot is neither the
  first nor the last character of the name (\<^verbatim>\<open>0 < i < len(name) - 1\<close>), and the empty
  string otherwise. (From Python 3.14 on a name ending in a dot has the suffix \<open>.\<close>; that
  suffix is not an allowed type either.)
\<close>

definition path_name :: "string \<Rightarrow> string" where
  "path_name s =
     (case filter (\<lambda>x. x \<noteq> [] \<and> x \<noteq> ''.'') (split_on CHR ''/'' s) of
        [] \<Rightarrow> []
      | p # ps \<Rightarrow> last (p # ps))"

definition name_suffix :: "string \<Rightarrow> string" where
  "name_suffix name =
     (case rfind CHR ''.'' name of
        None \<Rightarrow> []
      | Some i \<Rightarrow> if 0 < i \<and> i + 1 < length name then drop i name else [])"

definition path_suffix :: "string \<Rightarrow> string" where
  "path_suffix s = name_suffix (path_name s)"

section \<open>The world around a request\<close>

text \<open>
  What the handler touches outside itself: the files on disk with their contents, the
  lines given to the logger, and a record of the calls that leave the process (a temp
  file created, the transcriber invoked with a path and a language, a deletion tried).
\<close>

datatype level = INFO | WARNING | ERROR

datatype event = EvCreate path | EvTranscribe path string | EvUnlink path

record world =
  files :: "path \<rightharpoonup> bytes"
  logs :: "(level \<times> string) list"
  trace :: "event list"

definition logger :: "level \<Rightarrow> string \<Rightarrow> world \<Rightarrow> world" where
  "logger lv msg w = w\<lparr>logs := logs w @ [(lv, msg)]\<rparr>"

definition emit :: "event \<Rightarrow> world \<Rightarrow> world" where
  "emit ev w = w\<lparr>trace := trace w @ [ev]\<rparr>"

text \<open>
  The transcriber (\<^verbatim>\<open>whisper\<close>'s model object) is a collaborator outside the module:
  \<^verbatim>\<open>model.transcribe(path, language=...)\<close> reads the file at the path and returns a
  dictionary or raises.
\<close>

type_synonym transcriber = "(path \<rightharpoonup> bytes) \<Rightarrow> path \<Rightarrow> string \<Rightarrow> pyexc + pydict"

text \<open>The module's global: \<^verbatim>\<open>model = None\<close> until \<^verbatim>\<open>load_model\<close> assigns it.\<close>

record app =
  model :: "transcriber option"

text \<open>
  What the operating system answers during one request:
  \<^item> \<open>set_order\<close>: the order in which the set \<^verbatim>\<open>allowed_types\<close> is iterated (it depends
    on the interpreter's string hashing);
  \<^item> \<open>open_error\<close>: a failure of \<^verbatim>\<open>NamedTemporaryFile\<close> other than a name clash;
  \<^item> \<open>tmp_names\<close>: the candidate names (directory, prefix and random part) that
    \<^verbatim>\<open>tempfile\<close> tries in turn, each opened exclusively with the suffix appended;
  \<^item> \<open>write_error\<close>, \<open>close_error\<close>, \<open>unlink_error\<close>: a failure of \<^verbatim>\<open>tmp.write\<close>,
    of closing the file when the \<^verbatim>\<open>with\<close> block is left, of \<^verbatim>\<open>os.unlink\<close>.
\<close>

record env =
  set_order :: "string list"
  open_error :: "pyexc option"
  tmp_names :: "string list"
  write_error :: "pyexc option"
  close_error :: "pyexc option"
  unlink_error :: "pyexc option"

text \<open>The upload: its declared file name and what \<^verbatim>\<open>await file.read()\<close> gives.\<close>

record upload =
  filename :: string
  read_result :: "pyexc + bytes"

datatype response = JSONResponse (status_code: nat) (content: pydict)

text \<open>
  How a handler ends: it returns a response, raises \<^verbatim>\<open>HTTPException(status, detail)\<close>
  (which the framework turns into that status with the detail as body), or lets another
  exception escape.
\<close>

datatype outcome =
    Returned response
  | RaisedHTTP nat string
  | Escaped pyexc

section \<open>Startup and the health endpoint\<close>




section \<open>The upload endpoint\<close>

definition allowed_types :: "string set" where
  "allowed_types = {''.mp3'', ''.wav'', ''.m4a''}"

definition file_ext_of :: "upload \<Rightarrow> string" where
  "file_ext_of up = lower (path_suffix (filename up))"

text \<open>The iteration order of the set is some enumeration of it without repetition.\<close>

definition valid_order :: "env \<Rightarrow> bool" where
  "valid_order en = (distinct (set_order en) \<and> set (set_order en) = allowed_types)"

definition unsupported_detail :: "env \<Rightarrow> string \<Rightarrow> string" where
  "unsupported_detail en file_ext =
     ''Unsupported file type: '' @ file_ext @ ''. Supported types: ''
       @ str_join '', '' (set_order en)"

subsection \<open>The temp file\<close>

text \<open>
  \<^verbatim>\<open>NamedTemporaryFile(suffix=file_ext, delete=False)\<close>: the first candidate name that
  does not exist yet is created empty (the file is opened exclusively, and an existing
  name makes \<^verbatim>\<open>tempfile\<close> try the next candidate); with no candidate left it raises
  \<^verbatim>\<open>FileExistsError\<close>.
\<close>

definition NamedTemporaryFile :: "env \<Rightarrow> string \<Rightarrow> world \<Rightarrow> (pyexc + path) \<times> world" where
  "NamedTemporaryFile en suf w =
     (case open_error en of
        Some e \<Rightarrow> (Inl e, w)
      | None \<Rightarrow>
          (case find (\<lambda>p. files w p = None) (map (\<lambda>n. n @ suf) (tmp_names en)) of
             None \<Rightarrow>
               (Inl (PyExc ''FileExistsError''
                       ''[Errno 17] No usable temporary file name found''), w)
           | Some p \<Rightarrow> (Inr p, emit (EvCreate p) (w\<lparr>files := (files w)(p \<mapsto> [])\<rparr>))))"

text \<open>
  The \<^verbatim>\<open>with\<close> block. The second component is the variable \<^verbatim>\<open>temp_file\<close> when the
  block is left: still \<open>None\<close> when the constructor raised, the file's name otherwise.
  Leaving the block closes the file, also when the body raised; an error of the close
  replaces the body's. The uploaded bytes are on disk once the write and the close have
  both succeeded.
\<close>

definition with_block ::
  "env \<Rightarrow> upload \<Rightarrow> string \<Rightarrow> world \<Rightarrow> (pyexc + path) \<times> path option \<times> world" where
  "with_block en up file_ext w =
     (case NamedTemporaryFile en file_ext w of
        (Inl e, w1) \<Rightarrow> (Inl e, None, w1)
      | (Inr p, w1) \<Rightarrow>
          (let body =
             (case read_result up of
                Inl e \<Rightarrow> Inl e
              | Inr contents \<Rightarrow>
                  (case write_error en of Some e \<Rightarrow> Inl e | None \<Rightarrow> Inr contents))
           in case close_error en of
                Some e \<Rightarrow> (Inl e, Some p, w1)
              | None \<Rightarrow>
                  (case body of
                     Inl e \<Rightarrow> (Inl e, Some p, w1)
                   | Inr contents \<Rightarrow>
                       (Inr p, Some p, w1\<lparr>files := (files w1)(p \<mapsto> contents)\<rparr>))))"

subsection \<open>The call into the transcriber\<close>

definition quote :: char where
  "quote = CHR 0x27"

definition no_attribute :: "string \<Rightarrow> pyexc" where
  "no_attribute attr =
     PyExc ''AttributeError''
       ([quote] @ ''NoneType'' @ [quote] @ '' object has no attribute ''
          @ [quote] @ attr @ [quote])"

text \<open>
  \<^verbatim>\<open>model.transcribe(temp_file, language=...)\<close> on the global: an attribute error while
  the global is \<open>None\<close>, the transcriber's answer on the current disk otherwise.
\<close>

definition model_transcribe ::
  "app \<Rightarrow> path \<Rightarrow> string \<Rightarrow> world \<Rightarrow> (pyexc + pydict) \<times> world" where
  "model_transcribe a p language w =
     (case model a of
        None \<Rightarrow> (Inl (no_attribute ''transcribe''), w)
      | Some t \<Rightarrow> (t (files w) p language, emit (EvTranscribe p language) w))"

text \<open>\<^verbatim>\<open>result.get("text", "").strip()\<close>: \<open>None\<close> has no \<^verbatim>\<open>strip\<close>.\<close>

definition get_text :: "pydict \<Rightarrow> pyexc + string" where
  "get_text result =
     (case dict_get result ''text'' (PyStr []) of
        PyStr s \<Rightarrow> Inr (strip s)
      | PyNone \<Rightarrow> Inl (no_attribute ''strip''))"

subsection \<open>The handler: \<^verbatim>\<open>try\<close>, \<^verbatim>\<open>except\<close>, \<^verbatim>\<open>finally\<close>\<close>

definition try_block ::
  "env \<Rightarrow> app \<Rightarrow> upload \<Rightarrow> string \<Rightarrow> world \<Rightarrow> (pyexc + response) \<times> path option \<times> world" where
  "try_block en a up file_ext w =
     (case with_block en up file_ext w of
        (Inl e, temp_file, w1) \<Rightarrow> (Inl e, temp_file, w1)
      | (Inr p, temp_file, w1) \<Rightarrow>
          (let w2 = logger INFO (''Processing file: '' @ filename up) w1 in
           case model_transcribe a p ''en'' w2 of
             (Inl e, w3) \<Rightarrow> (Inl e, temp_file, w3)
           | (Inr result, w3) \<Rightarrow>
               (case get_text result of
                  Inl e \<Rightarrow> (Inl e, temp_file, w3)
                | Inr transcribed_text \<Rightarrow>
                    (Inr (JSONResponse 200 [(''text'', PyStr transcribed_text)]),
                     temp_file,
                     logger INFO
                       (''Transcription completed. Length: ''
                          @ str_nat (length transcribed_text) @ '' chars'') w3))))"

definition except_clause :: "pyexc \<Rightarrow> world \<Rightarrow> outcome \<times> world" where
  "except_clause e w =
     (RaisedHTTP 500 (''Transcription failed: '' @ exc_str e),
      logger ERROR (''Transcription error: '' @ exc_str e) w)"

definition os_path_exists :: "world \<Rightarrow> path \<Rightarrow> bool" where
  "os_path_exists w p = (files w p \<noteq> None)"

text \<open>\<^verbatim>\<open>os.unlink\<close>: the call is recorded, then it removes the file or raises.\<close>

definition os_unlink :: "env \<Rightarrow> path \<Rightarrow> world \<Rightarrow> (pyexc + unit) \<times> world" where
  "os_unlink en p w =
     (let w1 = emit (EvUnlink p) w in
      case files w p of
        None \<Rightarrow>
          (Inl (PyExc ''FileNotFoundError'' (''[Errno 2] No such file or directory: '' @ p)),
           w1)
      | Some _ \<Rightarrow>
          (case unlink_error en of
             Some e \<Rightarrow> (Inl e, w1)
           | None \<Rightarrow> (Inr (), w1\<lparr>files := (files w1)(p := None)\<rparr>)))"

text \<open>
  The \<^verbatim>\<open>finally\<close> block; the first component is the exception that leaves it, if any.
  \<^verbatim>\<open>if temp_file and ...\<close> is false for \<open>None\<close> and for the empty string.
\<close>

definition finally_clause :: "env \<Rightarrow> path option \<Rightarrow> world \<Rightarrow> pyexc option \<times> world" where
  "finally_clause en temp_file w =
     (case temp_file of
        None \<Rightarrow> (None, w)
      | Some p \<Rightarrow>
          if p \<noteq> [] \<and> os_path_exists w p then
            (case os_unlink en p w of
               (Inr _, w1) \<Rightarrow> (None, logger INFO ''Temporary file cleaned up'' w1)
             | (Inl e, w1) \<Rightarrow>
                 (None, logger WARNING (''Failed to delete temp file: '' @ exc_str e) w1))
          else (None, w))"

text \<open>
  \<^verbatim>\<open>transcribe\<close>. The extension check raises before the \<^verbatim>\<open>try\<close>. Inside, the body's
  value or the \<^verbatim>\<open>except\<close> clause's exception is pending while \<^verbatim>\<open>finally\<close> runs, and an
  exception leaving \<^verbatim>\<open>finally\<close> would replace it.
\<close>

definition transcribe :: "env \<Rightarrow> app \<Rightarrow> upload \<Rightarrow> world \<Rightarrow> outcome \<times> world" where
  "transcribe en a up w =
     (let file_ext = file_ext_of up in
      if file_ext \<notin> allowed_types then
        (RaisedHTTP 400 (unsupported_detail en file_ext), w)
      else
        (case try_block en a up file_ext w of
           (r, temp_file, w1) \<Rightarrow>
             (case (case r of
                      Inr resp \<Rightarrow> (Returned resp, w1)
                    | Inl e \<Rightarrow> except_clause e w1) of
                (pending, w2) \<Rightarrow>
                  (case finally_clause en temp_file w2 of
                     (Some e, w3) \<Rightarrow> (Escaped e, w3)
                   | (None, w3) \<Rightarrow> (pending, w3)))))"

text \<open>
  The steps before the transcriber call all succeed for a request: the temp file can be
  opened and some candidate name is free, the upload can be read, written and closed.
\<close>

definition io_succeeds :: "env \<Rightarrow> upload \<Rightarrow> world \<Rightarrow> bool" where
  "io_succeeds en up w =
     (open_error en = None
      \<and> (\<exists>n\<in>set (tmp_names en). files w (n @ file_ext_of up) = None)
      \<and> \<not> isl (read_result up) \<and> write_error en = None \<and> close_error en = None)"

section \<open>Example inputs\<close>

text \<open>Concrete requests and environments, used to run the handler on.\<close>

definition world0 :: world where
  "world0 = \<lparr>files = Map.empty, logs = [], trace = []\<rparr>"

definition env_ok :: env where
  "env_ok =
     \<lparr>set_order = [''.wav'', ''.mp3'', ''.m4a''], open_error = None,
      tmp_names = [''/tmp/tmpk3v9x2aa''], write_error = None, close_error = None,
      unlink_error = None\<rparr>"

definition no_space :: pyexc where
  "no_space = PyExc ''OSError'' ''[Errno 28] No space left on device''"

definition mock_transcriber :: "pyexc + pydict \<Rightarrow> transcriber" where
  "mock_transcriber answer = (\<lambda>fs p language. answer)"

text \<open>A transcriber whose text is the very content of the file it is given.\<close>

definition content_transcriber :: transcriber where
  "content_transcriber =
     (\<lambda>fs p language.
        case fs p of
          None \<Rightarrow> Inl (PyExc ''RuntimeError'' ''Failed to load audio'')
        | Some c \<Rightarrow> Inr [(''text'', PyStr c), (''language'', PyStr language)])"

text \<open>The same, for English only.\<close>

definition english_only :: transcriber where
  "english_only =
     (\<lambda>fs p language.
        if language = ''en'' then content_transcriber fs p language
        else Inl (PyExc ''ValueError'' (''Unsupported language: '' @ language)))"

definition permission_denied :: pyexc where
  "permission_denied = PyExc ''PermissionError'' ''[Errno 13] Permission denied''"

definition upload_mp3 :: upload where
  "upload_mp3 = \<lparr>filename = ''talk.MP3'', read_result = Inr ''  hello world  ''\<rparr>"

text \<open>A loader that knows the model named \<^verbatim>\<open>tiny\<close> only.\<close>

definition tiny_loader :: "string \<Rightarrow> pyexc + transcriber" where
  "tiny_loader name =
     (if name = ''tiny'' then Inr content_transcriber
      else Inl (PyExc ''RuntimeError'' (''Model '' @ name @ '' not found'')))"

definition stream_closed :: pyexc where
  "stream_closed = PyExc ''RuntimeError'' ''stream closed''"

definition upload_cut :: upload where
  "upload_cut = \<lparr>filename = ''talk.MP3'', read_result = Inl stream_closed\<rparr>"

definition tmp_mp3 :: path where
  "tmp_mp3 = ''/tmp/tmpk3v9x2aa.mp3''"

text \<open>The world once the temp file exists, and once the upload has been written to it.\<close>

definition world_created :: world where
  "world_created = \<lparr>files = [tmp_mp3 \<mapsto> []], logs = [], trace = [EvCreate tmp_mp3]\<rparr>"

definition world_written :: world where
  "world_written =
     \<lparr>files = [tmp_mp3 \<mapsto> ''  hello world  ''], logs = [], trace = [EvCreate tmp_mp3]\<rparr>"

definition upload_txt :: upload where
  "upload_txt = \<lparr>filename = ''notes.txt'', read_result = Inr ''plain text''\<rparr>"

definition upload_plain :: upload where
  "upload_plain = \<lparr>filename = ''recordings/voice_memo'', read_result = Inr ''RIFF''\<rparr>"

lemmas string_defs =
  file_ext_of_def path_suffix_def path_name_def name_suffix_def lower_def lower_char_def
  allowed_types_def

lemmas handler_defs =
  transcribe_def try_block_def with_block_def NamedTemporaryFile_def model_transcribe_def
  get_text_def dict_get_def except_clause_def finally_clause_def os_path_exists_def
  os_unlink_def logger_def emit_def strip_def isspace_def unsupported_detail_def
  no_attribute_def quote_def str_nat.simps digit_char_def Let_def

lemmas example_defs =
  world0_def env_ok_def no_space_def mock_transcriber_def content_transcriber_def
  english_only_def permission_denied_def stream_closed_def upload_cut_def tmp_mp3_def
  world_created_def world_written_def tiny_loader_def
  upload_mp3_def upload_txt_def upload_plain_def

section \<open>Strings and paths\<close>

lemma rfind_None: "c \<notin> set s \<Longrightarrow> rfind c s = None"
  by (induction s) auto

lemma name_suffix_no_dot: "CHR ''.'' \<notin> set n \<Longrightarrow> name_suffix n = []"
  by (simp add: name_suffix_def rfind_None)

lemma split_on_parts: "x \<in> set (split_on c s) \<Longrightarrow> set x \<subseteq> set s"
proof (induction s arbitrary: x)
  case Nil
  then show ?case by simp
next
  case (Cons y ys)
  show ?case
  proof (cases "y = c")
    case True
    with Cons show ?thesis by auto
  next
    case False
    show ?thesis
    proof (cases "split_on c ys")
      case Nil
      with Cons.prems False show ?thesis by auto
    next
      case (Cons z zs)
      with Cons.prems False have "x = y # z \<or> x \<in> set zs" by auto
      moreover have "set z \<subseteq> set ys" using Cons.IH [of z] Cons by simp
      moreover have "x \<in> set zs \<Longrightarrow> set x \<subseteq> set ys" using Cons.IH [of x] Cons by simp
      ultimately show ?thesis by auto
    qed
  qed
qed

lemma path_name_chars: "set (path_name s) \<subseteq> set s"
proof (cases "filter (\<lambda>x. x \<noteq> [] \<and> x \<noteq> ''.'') (split_on CHR ''/'' s)")
  case Nil
  then show ?thesis by (simp add: path_name_def)
next
  case (Cons p ps)
  then have "path_name s = last (p # ps)" by (simp add: path_name_def)
  moreover have "last (p # ps) \<in> set (p # ps)" by (rule last_in_set) simp
  ultimately have "path_name s \<in> set (filter (\<lambda>x. x \<noteq> [] \<and> x \<noteq> ''.'') (split_on CHR ''/'' s))"
    using Cons by simp
  then have "path_name s \<in> set (split_on CHR ''/'' s)" by simp
  then show ?thesis by (rule split_on_parts)
qed

lemma lower_Nil: "lower [] = []"
  by (simp add: lower_def)

lemma nil_not_allowed: "[] \<notin> allowed_types"
  by (simp add: allowed_types_def)

lemma str_join_names: "x \<in> set xs \<Longrightarrow> \<exists>pre post. str_join sep xs = pre @ x @ post"
proof (induction sep xs rule: str_join.induct)
  case (1 sep)
  then show ?case by simp
next
  case (2 sep y)
  then have "str_join sep [y] = [] @ x @ []" by simp
  then show ?case by blast
next
  case (3 sep y z zs)
  show ?case
  proof (cases "x = y")
    case True
    then have "str_join sep (y # z # zs) = [] @ x @ (sep @ str_join sep (z # zs))" by simp
    then show ?thesis by blast
  next
    case False
    with 3 obtain pre post where "str_join sep (z # zs) = pre @ x @ post" by auto
    then have "str_join sep (y # z # zs) = (y @ sep @ pre) @ x @ post" by simp
    then show ?thesis by blast
  qed
qed




section \<open>The shape of a request\<close>

lemma allowed_nonempty: "x \<in> allowed_types \<Longrightarrow> x \<noteq> []"
  by (auto simp: allowed_types_def)

lemma finally_clause_no_raise: "fst (finally_clause en tf w) = None"
  by (simp add: finally_clause_def split: option.split prod.split sum.split)

lemma finally_clause_pair: "\<exists>w3. finally_clause en tf w = (None, w3)"
  using finally_clause_no_raise [of en tf w] by (cases "finally_clause en tf w") simp

lemma transcribe_rejected:
  "file_ext_of up \<notin> allowed_types \<Longrightarrow>
   transcribe en a up w = (RaisedHTTP 400 (unsupported_detail en (file_ext_of up)), w)"
  by (simp add: transcribe_def)

lemma transcribe_returns:
  assumes "file_ext_of up \<in> allowed_types"
    and "try_block en a up (file_ext_of up) w = (Inr resp, tf, w1)"
  shows "transcribe en a up w = (Returned resp, snd (finally_clause en tf w1))"
proof -
  obtain w3 where "finally_clause en tf w1 = (None, w3)"
    using finally_clause_pair by blast
  with assms show ?thesis by (simp add: transcribe_def)
qed

lemma transcribe_raises:
  assumes "file_ext_of up \<in> allowed_types"
    and "try_block en a up (file_ext_of up) w = (Inl e, tf, w1)"
  shows "transcribe en a up w =
           (RaisedHTTP 500 (''Transcription failed: '' @ exc_str e),
            snd (finally_clause en tf (logger ERROR (''Transcription error: '' @ exc_str e) w1)))"
proof -
  obtain w3 where
    "finally_clause en tf (logger ERROR (''Transcription error: '' @ exc_str e) w1) = (None, w3)"
    using finally_clause_pair by blast
  with assms show ?thesis by (simp add: transcribe_def except_clause_def)
qed

lemma NamedTemporaryFile_fails:
  "NamedTemporaryFile en suf w = (Inl e, w1) \<Longrightarrow> w1 = w"
  by (auto simp: NamedTemporaryFile_def split: option.splits)

lemma NamedTemporaryFile_creates:
  assumes "NamedTemporaryFile en suf w = (Inr p, w1)"
  shows "files w p = None" and "\<exists>n\<in>set (tmp_names en). p = n @ suf"
    and "w1 = emit (EvCreate p) (w\<lparr>files := (files w)(p \<mapsto> [])\<rparr>)"
proof -
  from assms have f: "find (\<lambda>p. files w p = None) (map (\<lambda>n. n @ suf) (tmp_names en)) = Some p"
    and w1: "w1 = emit (EvCreate p) (w\<lparr>files := (files w)(p \<mapsto> [])\<rparr>)"
    by (auto simp: NamedTemporaryFile_def split: option.splits)
  from f show "files w p = None" by (auto simp: find_Some_iff)
  from f have "p \<in> set (map (\<lambda>n. n @ suf) (tmp_names en))"
    by (auto simp: find_Some_iff)
  then show "\<exists>n\<in>set (tmp_names en). p = n @ suf" by auto
  from w1 show "w1 = emit (EvCreate p) (w\<lparr>files := (files w)(p \<mapsto> [])\<rparr>)" .
qed

lemma with_block_not_created:
  "NamedTemporaryFile en ext w = (Inl e, w1) \<Longrightarrow> with_block en up ext w = (Inl e, None, w)"
  using NamedTemporaryFile_fails [of en ext w e w1] by (simp add: with_block_def)

lemma try_block_not_created:
  "NamedTemporaryFile en ext w = (Inl e, w1) \<Longrightarrow> try_block en a up ext w = (Inl e, None, w)"
  by (simp add: try_block_def with_block_not_created)

lemma with_block_created:
  assumes "NamedTemporaryFile en ext w = (Inr p, wc)"
  shows "\<exists>r c w1. with_block en up ext w = (r, Some p, w1)
         \<and> files w1 = (files w)(p \<mapsto> c) \<and> logs w1 = logs w
         \<and> trace w1 = trace w @ [EvCreate p]
         \<and> (\<forall>q. r = Inr q \<longrightarrow> q = p \<and> read_result up = Inr c)"
  using NamedTemporaryFile_creates(3) [OF assms] assms
  by (auto simp: with_block_def emit_def split: option.splits sum.splits)

lemma try_block_created:
  assumes "NamedTemporaryFile en ext w = (Inr p, wc)"
  shows "\<exists>r c lg mid w2. try_block en a up ext w = (r, Some p, w2)
         \<and> files w2 = (files w)(p \<mapsto> c) \<and> logs w2 = logs w @ lg
         \<and> trace w2 = trace w @ EvCreate p # mid
         \<and> (mid = [] \<or> mid = [EvTranscribe p ''en''])"
proof -
  obtain r c w1 where wb: "with_block en up ext w = (r, Some p, w1)"
    and w1: "files w1 = (files w)(p \<mapsto> c)" "logs w1 = logs w"
      "trace w1 = trace w @ [EvCreate p]"
    and r: "\<forall>q. r = Inr q \<longrightarrow> q = p \<and> read_result up = Inr c"
    using with_block_created [OF assms, of up] by blast
  show ?thesis
  proof (cases r)
    case (Inl e)
    with wb have "try_block en a up ext w = (Inl e, Some p, w1)"
      by (simp add: try_block_def)
    with w1 show ?thesis by auto
  next
    case (Inr q)
    with r have q: "q = p" by simp
    show ?thesis
      using wb Inr q w1
      by (auto simp: try_block_def model_transcribe_def logger_def emit_def Let_def
          split: option.splits sum.splits prod.splits)
  qed
qed

lemma finally_clause_world:
  "snd (finally_clause en tf w) =
     (case tf of
        None \<Rightarrow> w
      | Some p \<Rightarrow>
          if p \<noteq> [] \<and> files w p \<noteq> None then
            (case unlink_error en of
               None \<Rightarrow> w\<lparr>files := (files w)(p := None),
                          logs := logs w @ [(INFO, ''Temporary file cleaned up'')],
                          trace := trace w @ [EvUnlink p]\<rparr>
             | Some e \<Rightarrow> w\<lparr>logs := logs w @ [(WARNING, ''Failed to delete temp file: '' @ exc_str e)],
                            trace := trace w @ [EvUnlink p]\<rparr>)
          else w)"
  by (auto simp: finally_clause_def os_path_exists_def os_unlink_def logger_def emit_def Let_def
      split: option.splits)

lemma transcribe_not_created:
  assumes "file_ext_of up \<in> allowed_types"
    and "NamedTemporaryFile en (file_ext_of up) w = (Inl e, w1)"
  shows "transcribe en a up w =
           (RaisedHTTP 500 (''Transcription failed: '' @ exc_str e),
            logger ERROR (''Transcription error: '' @ exc_str e) w)"
  using transcribe_raises [OF assms(1) try_block_not_created [OF assms(2)]]
  by (simp add: finally_clause_world)

lemma created_path_nonempty:
  assumes "suf \<noteq> []" and "NamedTemporaryFile en suf w = (Inr p, wc)"
  shows "p \<noteq> []"
  using NamedTemporaryFile_creates(2) [OF assms(2)] assms(1) by auto

lemma transcribe_created:
  assumes acc: "file_ext_of up \<in> allowed_types"
    and ntf: "NamedTemporaryFile en (file_ext_of up) w = (Inr p, wc)"
  shows "\<exists>c lg mid.
      files (snd (transcribe en a up w)) =
        (case unlink_error en of None \<Rightarrow> files w | Some e \<Rightarrow> (files w)(p \<mapsto> c))
    \<and> logs (snd (transcribe en a up w)) =
        logs w @ lg @
          [case unlink_error en of
             None \<Rightarrow> (INFO, ''Temporary file cleaned up'')
           | Some e \<Rightarrow> (WARNING, ''Failed to delete temp file: '' @ exc_str e)]
    \<and> trace (snd (transcribe en a up w)) = trace w @ EvCreate p # mid @ [EvUnlink p]
    \<and> (mid = [] \<or> mid = [EvTranscribe p ''en''])"
proof -
  have fresh: "files w p = None" by (rule NamedTemporaryFile_creates(1) [OF ntf])
  have ne: "p \<noteq> []" by (rule created_path_nonempty [OF allowed_nonempty [OF acc] ntf])
  obtain r c lg mid w2 where tb: "try_block en a up (file_ext_of up) w = (r, Some p, w2)"
    and w2: "files w2 = (files w)(p \<mapsto> c)" "logs w2 = logs w @ lg"
      "trace w2 = trace w @ EvCreate p # mid"
    and mid: "mid = [] \<or> mid = [EvTranscribe p ''en'']"
    using try_block_created [OF ntf, of a up] by blast
  have gone: "(files w)(p := None) = files w" using fresh by (simp add: fun_upd_idem)
  show ?thesis
  proof (cases r)
    case (Inl e)
    let ?w = "logger ERROR (''Transcription error: '' @ exc_str e) w2"
    have s: "snd (transcribe en a up w) = snd (finally_clause en (Some p) ?w)"
      using transcribe_raises [OF acc tb [unfolded Inl]] by simp
    have "files (snd (transcribe en a up w)) =
        (case unlink_error en of None \<Rightarrow> files w | Some e \<Rightarrow> (files w)(p \<mapsto> c))"
      using w2 ne gone by (simp add: s finally_clause_world logger_def split: option.split)
    moreover have "logs (snd (transcribe en a up w)) =
        logs w @ (lg @ [(ERROR, ''Transcription error: '' @ exc_str e)]) @
          [case unlink_error en of
             None \<Rightarrow> (INFO, ''Temporary file cleaned up'')
           | Some e \<Rightarrow> (WARNING, ''Failed to delete temp file: '' @ exc_str e)]"
      using w2 ne by (simp add: s finally_clause_world logger_def split: option.split)
    moreover have "trace (snd (transcribe en a up w)) = trace w @ EvCreate p # mid @ [EvUnlink p]"
      using w2 ne by (simp add: s finally_clause_world logger_def split: option.split)
    ultimately show ?thesis using mid by blast
  next
    case (Inr resp)
    have s: "snd (transcribe en a up w) = snd (finally_clause en (Some p) w2)"
      using transcribe_returns [OF acc tb [unfolded Inr]] by simp
    have "files (snd (transcribe en a up w)) =
        (case unlink_error en of None \<Rightarrow> files w | Some e \<Rightarrow> (files w)(p \<mapsto> c))"
      using w2 ne gone by (simp add: s finally_clause_world split: option.split)
    moreover have "logs (snd (transcribe en a up w)) =
        logs w @ lg @
          [case unlink_error en of
             None \<Rightarrow> (INFO, ''Temporary file cleaned up'')
           | Some e \<Rightarrow> (WARNING, ''Failed to delete temp file: '' @ exc_str e)]"
      using w2 ne by (simp add: s finally_clause_world split: option.split)
    moreover have "trace (snd (transcribe en a up w)) = trace w @ EvCreate p # mid @ [EvUnlink p]"
      using w2 ne by (simp add: s finally_clause_world split: option.split)
    ultimately show ?thesis using mid by blast
  qed
qed

lemma transcribe_never_escapes: "fst (transcribe en a up w) \<noteq> Escaped x"
proof (cases "file_ext_of up \<in> allowed_types")
  case False
  then show ?thesis by (simp add: transcribe_rejected)
next
  case True
  obtain r tf w1 where tb: "try_block en a up (file_ext_of up) w = (r, tf, w1)"
    by (cases "try_block en a up (file_ext_of up) w") auto
  show ?thesis
  proof (cases r)
    case (Inl e)
    then show ?thesis using transcribe_raises [OF True tb [unfolded Inl]] by simp
  next
    case (Inr resp)
    then show ?thesis using transcribe_returns [OF True tb [unfolded Inr]] by simp
  qed
qed

section \<open>Rejected uploads\<close>

text \<open>
  C1. For every file name whose lower-cased extension is outside the allow-list, the
  upload endpoint raises the 400 error whose detail is
  \<^verbatim>\<open>Unsupported file type: <ext>. Supported types: <the allow-list joined by ", ">\<close>,
  and it leaves the world as it was: no temp file is created, the transcriber is not
  called, nothing is logged. Whatever order the set is iterated in, each of the three
  allowed extensions is spelled out in the joined list.
\<close>

theorem unsupported_extension_rejected:
  assumes "file_ext_of up \<notin> allowed_types"
  shows "transcribe en a up w =
           (RaisedHTTP 400
              (''Unsupported file type: '' @ file_ext_of up @ ''. Supported types: ''
                 @ str_join '', '' (set_order en)), w)
       \<and> (valid_order en \<longrightarrow>
            (\<forall>t\<in>allowed_types. \<exists>pre post. str_join '', '' (set_order en) = pre @ t @ post))"
proof -
  have "transcribe en a up w =
           (RaisedHTTP 400
              (''Unsupported file type: '' @ file_ext_of up @ ''. Supported types: ''
                 @ str_join '', '' (set_order en)), w)"
    using transcribe_rejected [OF assms] by (simp add: unsupported_detail_def)
  moreover have "valid_order en \<longrightarrow>
            (\<forall>t\<in>allowed_types. \<exists>pre post. str_join '', '' (set_order en) = pre @ t @ post)"
    by (auto simp: valid_order_def intro: str_join_names)
  ultimately show ?thesis by simp
qed

theorem unsupported_extension_rejected_witness:
  "file_ext_of upload_txt \<notin> allowed_types \<and> valid_order env_ok
   \<and> transcribe env_ok \<lparr>model = Some content_transcriber\<rparr> upload_txt world0 =
       (RaisedHTTP 400 ''Unsupported file type: .txt. Supported types: .wav, .mp3, .m4a'', world0)
   \<and> (\<exists>pre post. str_join '', '' (set_order env_ok) = pre @ ''.m4a'' @ post)"
proof -
  have h: "file_ext_of upload_txt \<notin> allowed_types"
    by (simp add: string_defs upload_txt_def)
  have e: "file_ext_of upload_txt = ''.txt''"
    by (simp add: string_defs upload_txt_def)
  have v: "valid_order env_ok"
    by (auto simp: valid_order_def env_ok_def allowed_types_def)
  have m: "''.m4a'' \<in> allowed_types" by (simp add: allowed_types_def)
  note r = unsupported_extension_rejected
    [OF h, of env_ok "\<lparr>model = Some content_transcriber\<rparr>" world0]
  from r have A: "transcribe env_ok \<lparr>model = Some content_transcriber\<rparr> upload_txt world0 =
       (RaisedHTTP 400 ''Unsupported file type: .txt. Supported types: .wav, .mp3, .m4a'', world0)"
    by (simp add: e env_ok_def)
  from r v have "\<forall>t\<in>allowed_types. \<exists>pre post. str_join '', '' (set_order env_ok) = pre @ t @ post"
    by simp
  with m have "\<exists>pre post. str_join '', '' (set_order env_ok) = pre @ ''.m4a'' @ post"
    by blast
  with h v A show ?thesis by simp
qed

text \<open>
  C7. A file name whose last path component has no dot has the empty string as its
  extension; the empty string is not an allowed type, so the request is rejected with
  400 as unsupported. By \<open>path_name_chars\<close> this covers every file name without any
  dot at all.
\<close>

theorem no_extension_rejected:
  assumes "CHR ''.'' \<notin> set (path_name (filename up))"
  shows "path_suffix (filename up) = [] \<and> file_ext_of up = [] \<and> [] \<notin> allowed_types
       \<and> transcribe en a up w =
           (RaisedHTTP 400
              (''Unsupported file type: . Supported types: '' @ str_join '', '' (set_order en)),
            w)"
proof -
  have s: "path_suffix (filename up) = []"
    using assms by (simp add: path_suffix_def name_suffix_no_dot)
  then have e: "file_ext_of up = []" by (simp add: file_ext_of_def lower_Nil)
  then have "file_ext_of up \<notin> allowed_types" by (simp add: nil_not_allowed)
  then have "transcribe en a up w = (RaisedHTTP 400 (unsupported_detail en (file_ext_of up)), w)"
    by (rule transcribe_rejected)
  with s e show ?thesis by (simp add: unsupported_detail_def nil_not_allowed)
qed

theorem no_extension_rejected_witness:
  "CHR ''.'' \<notin> set (path_name (filename upload_plain))
   \<and> file_ext_of upload_plain = []
   \<and> transcribe env_ok \<lparr>model = Some content_transcriber\<rparr> upload_plain world0 =
       (RaisedHTTP 400 ''Unsupported file type: . Supported types: .wav, .mp3, .m4a'', world0)"
proof -
  have h: "CHR ''.'' \<notin> set (path_name (filename upload_plain))"
    by (simp add: path_name_def upload_plain_def)
  show ?thesis
    using h no_extension_rejected [OF h, of env_ok "\<lparr>model = Some content_transcriber\<rparr>" world0]
    by (simp add: env_ok_def)
qed

section \<open>The language handed to the transcriber\<close>

lemma transcribe_trace:
  "\<exists>new. trace (snd (transcribe en a up w)) = trace w @ new
     \<and> (new = [] \<or> (\<exists>p mid. new = EvCreate p # mid @ [EvUnlink p]
                        \<and> (mid = [] \<or> mid = [EvTranscribe p ''en''])))"
proof (cases "file_ext_of up \<in> allowed_types")
  case False
  then show ?thesis by (simp add: transcribe_rejected)
next
  case True
  obtain r wc where ntf: "NamedTemporaryFile en (file_ext_of up) w = (r, wc)"
    by (cases "NamedTemporaryFile en (file_ext_of up) w") auto
  show ?thesis
  proof (cases r)
    case (Inl e)
    then show ?thesis
      using transcribe_not_created [OF True ntf [unfolded Inl], of a] by (simp add: logger_def)
  next
    case (Inr p)
    then show ?thesis
      using transcribe_created [OF True ntf [unfolded Inr], of a] by blast
  qed
qed

lemma transcribe_same_answers:
  assumes "\<forall>fs p. t fs p ''en'' = t' fs p ''en''"
  shows "transcribe en (a\<lparr>model := Some t\<rparr>) up w = transcribe en (a\<lparr>model := Some t'\<rparr>) up w"
proof -
  have "model_transcribe (a\<lparr>model := Some t\<rparr>) p ''en'' v
      = model_transcribe (a\<lparr>model := Some t'\<rparr>) p ''en'' v" for p v
    using assms by (simp add: model_transcribe_def)
  then have "try_block en (a\<lparr>model := Some t\<rparr>) up x w = try_block en (a\<lparr>model := Some t'\<rparr>) up x w"
    for x
    by (simp add: try_block_def Let_def cong: prod.case_cong sum.case_cong)
  then show ?thesis by (simp add: transcribe_def Let_def cong: if_cong)
qed

lemma run_mp3:
  "transcribe env_ok \<lparr>model = Some content_transcriber\<rparr> upload_mp3 world0 =
     (Returned (JSONResponse 200 [(''text'', PyStr ''hello world'')]),
      \<lparr>files = Map.empty,
       logs = [(INFO, ''Processing file: talk.MP3''),
               (INFO, ''Transcription completed. Length: 11 chars''),
               (INFO, ''Temporary file cleaned up'')],
       trace = [EvCreate ''/tmp/tmpk3v9x2aa.mp3'',
                EvTranscribe ''/tmp/tmpk3v9x2aa.mp3'' ''en'',
                EvUnlink ''/tmp/tmpk3v9x2aa.mp3'']\<rparr>)"
  by (simp add: string_defs handler_defs example_defs)

text \<open>
  C6. Every call into the transcriber that a request records carries the language
  \<^verbatim>\<open>en\<close>: the events a request appends to the trace name no other language. The
  handler asks the transcriber nothing else either: two transcribers that agree on
  \<^verbatim>\<open>en\<close> give the same outcome and the same world, whatever they do for other
  languages, so no language is chosen from the request or detected.
\<close>

theorem transcriber_language_fixed:
  "(\<exists>new. trace (snd (transcribe en a up w)) = trace w @ new
       \<and> (\<forall>p language. EvTranscribe p language \<in> set new \<longrightarrow> language = ''en''))
   \<and> ((\<forall>fs p. t fs p ''en'' = t' fs p ''en'') \<longrightarrow>
        transcribe en (a\<lparr>model := Some t\<rparr>) up w = transcribe en (a\<lparr>model := Some t'\<rparr>) up w)"
proof -
  obtain new where n: "trace (snd (transcribe en a up w)) = trace w @ new"
    and s: "new = [] \<or> (\<exists>p mid. new = EvCreate p # mid @ [EvUnlink p]
                        \<and> (mid = [] \<or> mid = [EvTranscribe p ''en'']))"
    using transcribe_trace by blast
  from s have "\<forall>p language. EvTranscribe p language \<in> set new \<longrightarrow> language = ''en''"
    by auto
  with n show ?thesis using transcribe_same_answers by blast
qed

theorem transcriber_language_fixed_witness:
  "(\<forall>fs p. content_transcriber fs p ''en'' = english_only fs p ''en'')
   \<and> EvTranscribe ''/tmp/tmpk3v9x2aa.mp3'' ''en''
       \<in> set (trace (snd (transcribe env_ok \<lparr>model = Some content_transcriber\<rparr> upload_mp3 world0)))
   \<and> transcribe env_ok \<lparr>model = Some content_transcriber\<rparr> upload_mp3 world0
       = transcribe env_ok \<lparr>model = Some english_only\<rparr> upload_mp3 world0"
proof -
  have h: "\<forall>fs p. content_transcriber fs p ''en'' = english_only fs p ''en''"
    by (simp add: english_only_def)
  have "transcribe env_ok (\<lparr>model = None\<rparr>\<lparr>model := Some content_transcriber\<rparr>) upload_mp3 world0
       = transcribe env_ok (\<lparr>model = None\<rparr>\<lparr>model := Some english_only\<rparr>) upload_mp3 world0"
    using h transcriber_language_fixed
      [of env_ok "\<lparr>model = None\<rparr>" upload_mp3 world0 content_transcriber english_only]
    by blast
  then have eq: "transcribe env_ok \<lparr>model = Some content_transcriber\<rparr> upload_mp3 world0
       = transcribe env_ok \<lparr>model = Some english_only\<rparr> upload_mp3 world0"
    by simp
  have m: "EvTranscribe ''/tmp/tmpk3v9x2aa.mp3'' ''en''
       \<in> set (trace (snd (transcribe env_ok \<lparr>model = Some content_transcriber\<rparr> upload_mp3 world0)))"
    by (simp add: run_mp3)
  from h m eq show ?thesis by blast
qed

section \<open>Failures after validation\<close>

lemma transcribe_outcome:
  assumes "file_ext_of up \<in> allowed_types"
  shows "fst (transcribe en a up w) =
           (case fst (try_block en a up (file_ext_of up) w) of
              Inl e \<Rightarrow> RaisedHTTP 500 (''Transcription failed: '' @ exc_str e)
            | Inr resp \<Rightarrow> Returned resp)"
proof -
  obtain r tf w1 where tb: "try_block en a up (file_ext_of up) w = (r, tf, w1)"
    by (cases "try_block en a up (file_ext_of up) w") auto
  show ?thesis
  proof (cases r)
    case (Inl e)
    then show ?thesis using transcribe_raises [OF assms tb [unfolded Inl]] tb by simp
  next
    case (Inr resp)
    then show ?thesis using transcribe_returns [OF assms tb [unfolded Inr]] tb by simp
  qed
qed

lemma try_block_read_fails:
  assumes "NamedTemporaryFile en ext w = (Inr p, wc)" and "close_error en = None"
    and "read_result up = Inl e"
  shows "fst (try_block en a up ext w) = Inl e"
  using assms by (simp add: try_block_def with_block_def)

lemma try_block_write_fails:
  assumes "NamedTemporaryFile en ext w = (Inr p, wc)" and "close_error en = None"
    and "read_result up = Inr c" and "write_error en = Some e"
  shows "fst (try_block en a up ext w) = Inl e"
  using assms by (simp add: try_block_def with_block_def)

lemma try_block_close_fails:
  assumes "NamedTemporaryFile en ext w = (Inr p, wc)" and "close_error en = Some e"
  shows "fst (try_block en a up ext w) = Inl e"
  using assms by (simp add: try_block_def with_block_def)

lemma try_block_no_model:
  assumes "with_block en up ext w = (Inr p, tf, w1)" and "model a = None"
  shows "fst (try_block en a up ext w) = Inl (no_attribute ''transcribe'')"
  using assms by (simp add: try_block_def model_transcribe_def Let_def)

lemma try_block_answer:
  assumes "with_block en up ext w = (Inr p, tf, w1)" and "model a = Some t"
  shows "fst (try_block en a up ext w) =
           (case t (files w1) p ''en'' of
              Inl e \<Rightarrow> Inl e
            | Inr result \<Rightarrow>
                (case get_text result of
                   Inl e \<Rightarrow> Inl e
                 | Inr txt \<Rightarrow> Inr (JSONResponse 200 [(''text'', PyStr txt)])))"
  using assms
  by (simp add: try_block_def model_transcribe_def logger_def Let_def split: sum.split)

lemma try_block_response:
  assumes "fst (try_block en a up ext w) = Inr resp"
  shows "\<exists>txt. resp = JSONResponse 200 [(''text'', PyStr txt)]"
  using assms
  by (auto simp: try_block_def Let_def split: prod.splits sum.splits)

lemma ext_mp3: "file_ext_of upload_mp3 = ''.mp3''"
  by (simp add: string_defs upload_mp3_def)

lemma ext_cut: "file_ext_of upload_cut = ''.mp3''"
  by (simp add: string_defs upload_cut_def)

lemma mp3_allowed: "''.mp3'' \<in> allowed_types"
  by (simp add: allowed_types_def)

lemma create_mp3:
  "open_error en = None \<Longrightarrow> tmp_names en = [''/tmp/tmpk3v9x2aa''] \<Longrightarrow>
   NamedTemporaryFile en ''.mp3'' world0 = (Inr tmp_mp3, world_created)"
  by (simp add: NamedTemporaryFile_def emit_def example_defs)

lemma write_mp3:
  "open_error en = None \<Longrightarrow> tmp_names en = [''/tmp/tmpk3v9x2aa''] \<Longrightarrow>
   write_error en = None \<Longrightarrow> close_error en = None \<Longrightarrow>
   with_block en upload_mp3 ''.mp3'' world0 = (Inr tmp_mp3, Some tmp_mp3, world_written)"
  by (simp add: with_block_def create_mp3) (simp add: example_defs)

text \<open>
  C5. For an accepted upload, whenever the \<^verbatim>\<open>try\<close> block raises an exception \<open>e\<close> the
  handler raises the 500 error whose detail ends with \<^verbatim>\<open>str(e)\<close>. This is spelled out
  for the three steps: reading the uploaded bytes fails, writing the temp file fails, the
  transcriber call fails. No exception other than the handler's own HTTP error leaves it.
\<close>

theorem downstream_failure_is_500:
  assumes "file_ext_of up \<in> allowed_types"
  shows "(\<forall>e. fst (try_block en a up (file_ext_of up) w) = Inl e \<longrightarrow>
            fst (transcribe en a up w) = RaisedHTTP 500 (''Transcription failed: '' @ exc_str e))
       \<and> (\<forall>e p wc. NamedTemporaryFile en (file_ext_of up) w = (Inr p, wc)
              \<and> close_error en = None \<and> read_result up = Inl e \<longrightarrow>
            fst (transcribe en a up w) = RaisedHTTP 500 (''Transcription failed: '' @ exc_str e))
       \<and> (\<forall>e p wc c. NamedTemporaryFile en (file_ext_of up) w = (Inr p, wc)
              \<and> close_error en = None \<and> read_result up = Inr c \<and> write_error en = Some e \<longrightarrow>
            fst (transcribe en a up w) = RaisedHTTP 500 (''Transcription failed: '' @ exc_str e))
       \<and> (\<forall>e p tf w1 t. with_block en up (file_ext_of up) w = (Inr p, tf, w1)
              \<and> model a = Some t \<and> t (files w1) p ''en'' = Inl e \<longrightarrow>
            fst (transcribe en a up w) = RaisedHTTP 500 (''Transcription failed: '' @ exc_str e))
       \<and> (\<forall>x. fst (transcribe en a up w) \<noteq> Escaped x)"
proof -
  note o = transcribe_outcome [OF assms, of en a w]
  have 1: "\<forall>e. fst (try_block en a up (file_ext_of up) w) = Inl e \<longrightarrow>
            fst (transcribe en a up w) = RaisedHTTP 500 (''Transcription failed: '' @ exc_str e)"
    by (simp add: o)
  have 2: "\<forall>e p wc. NamedTemporaryFile en (file_ext_of up) w = (Inr p, wc)
              \<and> close_error en = None \<and> read_result up = Inl e \<longrightarrow>
            fst (transcribe en a up w) = RaisedHTTP 500 (''Transcription failed: '' @ exc_str e)"
    using 1 try_block_read_fails by blast
  have 3: "\<forall>e p wc c. NamedTemporaryFile en (file_ext_of up) w = (Inr p, wc)
              \<and> close_error en = None \<and> read_result up = Inr c \<and> write_error en = Some e \<longrightarrow>
            fst (transcribe en a up w) = RaisedHTTP 500 (''Transcription failed: '' @ exc_str e)"
    using 1 try_block_write_fails by blast
  have 4: "\<forall>e p tf w1 t. with_block en up (file_ext_of up) w = (Inr p, tf, w1)
              \<and> model a = Some t \<and> t (files w1) p ''en'' = Inl e \<longrightarrow>
            fst (transcribe en a up w) = RaisedHTTP 500 (''Transcription failed: '' @ exc_str e)"
    using 1 by (auto simp: try_block_answer)
  from 1 2 3 4 show ?thesis using transcribe_never_escapes by blast
qed

theorem downstream_failure_is_500_witness:
  "file_ext_of upload_cut \<in> allowed_types
   \<and> NamedTemporaryFile env_ok (file_ext_of upload_cut) world0 = (Inr tmp_mp3, world_created)
   \<and> close_error env_ok = None \<and> read_result upload_cut = Inl stream_closed
   \<and> fst (transcribe env_ok \<lparr>model = Some content_transcriber\<rparr> upload_cut world0)
       = RaisedHTTP 500 ''Transcription failed: stream closed''
   \<and> file_ext_of upload_mp3 \<in> allowed_types
   \<and> read_result upload_mp3 = Inr ''  hello world  ''
   \<and> write_error (env_ok\<lparr>write_error := Some no_space\<rparr>) = Some no_space
   \<and> fst (transcribe (env_ok\<lparr>write_error := Some no_space\<rparr>)
            \<lparr>model = Some content_transcriber\<rparr> upload_mp3 world0)
       = RaisedHTTP 500 ''Transcription failed: [Errno 28] No space left on device''
   \<and> with_block env_ok upload_mp3 (file_ext_of upload_mp3) world0
       = (Inr tmp_mp3, Some tmp_mp3, world_written)
   \<and> mock_transcriber (Inl stream_closed) (files world_written) tmp_mp3 ''en'' = Inl stream_closed
   \<and> fst (transcribe env_ok \<lparr>model = Some (mock_transcriber (Inl stream_closed))\<rparr>
            upload_mp3 world0)
       = RaisedHTTP 500 ''Transcription failed: stream closed''"
proof -
  let ?a = "\<lparr>model = Some content_transcriber\<rparr>"
  let ?en = "env_ok\<lparr>write_error := Some no_space\<rparr>"
  let ?m = "\<lparr>model = Some (mock_transcriber (Inl stream_closed))\<rparr>"
  have a1: "file_ext_of upload_cut \<in> allowed_types" by (simp add: ext_cut mp3_allowed)
  have a2: "file_ext_of upload_mp3 \<in> allowed_types" by (simp add: ext_mp3 mp3_allowed)
  have c1: "NamedTemporaryFile env_ok (file_ext_of upload_cut) world0 = (Inr tmp_mp3, world_created)"
    by (simp add: ext_cut create_mp3 env_ok_def)
  have c2: "NamedTemporaryFile ?en (file_ext_of upload_mp3) world0 = (Inr tmp_mp3, world_created)"
    by (simp add: ext_mp3 create_mp3 env_ok_def)
  have k1: "close_error env_ok = None" and k2: "close_error ?en = None"
    by (simp_all add: env_ok_def)
  have r1: "read_result upload_cut = Inl stream_closed" by (simp add: upload_cut_def)
  have r2: "read_result upload_mp3 = Inr ''  hello world  ''" by (simp add: upload_mp3_def)
  have w2: "write_error ?en = Some no_space" by simp
  have b3: "with_block env_ok upload_mp3 (file_ext_of upload_mp3) world0
       = (Inr tmp_mp3, Some tmp_mp3, world_written)"
    by (simp add: ext_mp3 write_mp3 env_ok_def)
  have t3: "mock_transcriber (Inl stream_closed) (files world_written) tmp_mp3 ''en''
       = Inl stream_closed"
    by (simp add: mock_transcriber_def)
  have "fst (transcribe env_ok ?a upload_cut world0)
       = RaisedHTTP 500 (''Transcription failed: '' @ exc_str stream_closed)"
    using downstream_failure_is_500 [OF a1, of env_ok ?a world0] c1 k1 r1 by blast
  moreover have "fst (transcribe ?en ?a upload_mp3 world0)
       = RaisedHTTP 500 (''Transcription failed: '' @ exc_str no_space)"
    using downstream_failure_is_500 [OF a2, of ?en ?a world0] c2 k2 r2 w2 by blast
  moreover have "fst (transcribe env_ok ?m upload_mp3 world0)
       = RaisedHTTP 500 (''Transcription failed: '' @ exc_str stream_closed)"
    using downstream_failure_is_500 [OF a2, of env_ok ?m world0] b3 t3
    by (metis app.select_convs(1))
  ultimately show ?thesis
    using a1 a2 c1 k1 r1 r2 w2 b3 t3 by (simp add: stream_closed_def no_space_def)
qed

text \<open>
  C9. For an accepted upload every failure has one shape: the handler raises an HTTP
  error only with status 500 and the detail \<^verbatim>\<open>Transcription failed: \<close> followed by the
  message of the exception that left the \<^verbatim>\<open>try\<close> block. Which step raised it, and of
  which class it is, makes no difference: two failing requests whose exceptions have the
  same message end the same way.
\<close>

theorem single_error_shape:
  assumes "file_ext_of up \<in> allowed_types" and "file_ext_of up' \<in> allowed_types"
  shows "(\<forall>e. fst (try_block en a up (file_ext_of up) w) = Inl e \<longrightarrow>
            fst (transcribe en a up w) = RaisedHTTP 500 (''Transcription failed: '' @ exc_str e))
       \<and> (\<forall>status detail. fst (transcribe en a up w) = RaisedHTTP status detail \<longrightarrow>
            status = 500
            \<and> (\<exists>e. fst (try_block en a up (file_ext_of up) w) = Inl e
                  \<and> detail = ''Transcription failed: '' @ exc_str e))
       \<and> (\<forall>e e'. fst (try_block en a up (file_ext_of up) w) = Inl e
              \<and> fst (try_block en' a' up' (file_ext_of up') w') = Inl e'
              \<and> exc_str e = exc_str e' \<longrightarrow>
            fst (transcribe en a up w) = fst (transcribe en' a' up' w'))"
proof -
  note o = transcribe_outcome [OF assms(1), of en a w]
  note o' = transcribe_outcome [OF assms(2), of en' a' w']
  have "\<forall>e. fst (try_block en a up (file_ext_of up) w) = Inl e \<longrightarrow>
            fst (transcribe en a up w) = RaisedHTTP 500 (''Transcription failed: '' @ exc_str e)"
    by (simp add: o)
  moreover have "\<forall>status detail. fst (transcribe en a up w) = RaisedHTTP status detail \<longrightarrow>
            status = 500
            \<and> (\<exists>e. fst (try_block en a up (file_ext_of up) w) = Inl e
                  \<and> detail = ''Transcription failed: '' @ exc_str e)"
    by (cases "fst (try_block en a up (file_ext_of up) w)") (auto simp: o)
  moreover have "\<forall>e e'. fst (try_block en a up (file_ext_of up) w) = Inl e
              \<and> fst (try_block en' a' up' (file_ext_of up') w') = Inl e'
              \<and> exc_str e = exc_str e' \<longrightarrow>
            fst (transcribe en a up w) = fst (transcribe en' a' up' w')"
    by (simp add: o o')
  ultimately show ?thesis by blast
qed

theorem single_error_shape_witness:
  "file_ext_of upload_mp3 \<in> allowed_types
   \<and> fst (try_block (env_ok\<lparr>write_error := Some no_space\<rparr>) \<lparr>model = Some content_transcriber\<rparr>
            upload_mp3 (file_ext_of upload_mp3) world0) = Inl no_space
   \<and> fst (try_block env_ok
            \<lparr>model = Some (mock_transcriber (Inl (PyExc ''RuntimeError'' (exc_str no_space))))\<rparr>
            upload_mp3 (file_ext_of upload_mp3) world0)
       = Inl (PyExc ''RuntimeError'' (exc_str no_space))
   \<and> exc_str no_space = exc_str (PyExc ''RuntimeError'' (exc_str no_space))
   \<and> fst (transcribe (env_ok\<lparr>write_error := Some no_space\<rparr>) \<lparr>model = Some content_transcriber\<rparr>
            upload_mp3 world0)
       = RaisedHTTP 500 ''Transcription failed: [Errno 28] No space left on device''
   \<and> fst (transcribe env_ok
            \<lparr>model = Some (mock_transcriber (Inl (PyExc ''RuntimeError'' (exc_str no_space))))\<rparr>
            upload_mp3 world0)
       = RaisedHTTP 500 ''Transcription failed: [Errno 28] No space left on device''"
proof -
  let ?en = "env_ok\<lparr>write_error := Some no_space\<rparr>"
  let ?a = "\<lparr>model = Some content_transcriber\<rparr>"
  let ?e = "PyExc ''RuntimeError'' (exc_str no_space)"
  let ?m = "\<lparr>model = Some (mock_transcriber (Inl ?e))\<rparr>"
  have acc: "file_ext_of upload_mp3 \<in> allowed_types" by (simp add: ext_mp3 mp3_allowed)
  have c: "NamedTemporaryFile ?en (file_ext_of upload_mp3) world0 = (Inr tmp_mp3, world_created)"
    by (simp add: ext_mp3 create_mp3 env_ok_def)
  have t1: "fst (try_block ?en ?a upload_mp3 (file_ext_of upload_mp3) world0) = Inl no_space"
    by (rule try_block_write_fails [OF c]) (simp_all add: env_ok_def upload_mp3_def)
  have b: "with_block env_ok upload_mp3 (file_ext_of upload_mp3) world0
       = (Inr tmp_mp3, Some tmp_mp3, world_written)"
    by (simp add: ext_mp3 write_mp3 env_ok_def)
  have t2: "fst (try_block env_ok ?m upload_mp3 (file_ext_of upload_mp3) world0) = Inl ?e"
    using try_block_answer [OF b, of ?m "mock_transcriber (Inl ?e)"]
    by (simp add: mock_transcriber_def)
  have s: "exc_str no_space = exc_str ?e" by simp
  note th = single_error_shape [OF acc acc, of ?en ?a world0 env_ok ?m world0]
  from th t1 t2 s have eq: "fst (transcribe ?en ?a upload_mp3 world0)
      = fst (transcribe env_ok ?m upload_mp3 world0)"
    by blast
  from th t1 have "fst (transcribe ?en ?a upload_mp3 world0)
      = RaisedHTTP 500 (''Transcription failed: '' @ exc_str no_space)"
    by blast
  then have v: "fst (transcribe ?en ?a upload_mp3 world0)
      = RaisedHTTP 500 ''Transcription failed: [Errno 28] No space left on device''"
    by (simp add: no_space_def)
  from acc t1 t2 s v eq show ?thesis by simp
qed

section \<open>Cleanup\<close>

text \<open>
  C10. The \<^verbatim>\<open>finally\<close> block never raises, in any world and for any value of
  \<^verbatim>\<open>temp_file\<close>. It tries a deletion exactly when \<^verbatim>\<open>temp_file\<close> is a non-empty path
  whose file exists. When creating the temp file fails, \<^verbatim>\<open>temp_file\<close> is still \<open>None\<close>
  and the request records no call and leaves the files alone. No exception of the
  cleanup leaves the handler.
\<close>

theorem cleanup_never_raises:
  "fst (finally_clause en tf w) = None
   \<and> trace (snd (finally_clause en tf w)) =
       (case tf of
          None \<Rightarrow> trace w
        | Some p \<Rightarrow> if p \<noteq> [] \<and> files w p \<noteq> None then trace w @ [EvUnlink p] else trace w)
   \<and> (\<forall>e w1. file_ext_of up \<in> allowed_types
          \<and> NamedTemporaryFile en (file_ext_of up) w = (Inl e, w1) \<longrightarrow>
        fst (snd (try_block en a up (file_ext_of up) w)) = None
        \<and> trace (snd (transcribe en a up w)) = trace w
        \<and> files (snd (transcribe en a up w)) = files w)
   \<and> (\<forall>x. fst (transcribe en a up w) \<noteq> Escaped x)"
proof -
  have "trace (snd (finally_clause en tf w)) =
       (case tf of
          None \<Rightarrow> trace w
        | Some p \<Rightarrow> if p \<noteq> [] \<and> files w p \<noteq> None then trace w @ [EvUnlink p] else trace w)"
    by (simp add: finally_clause_world split: option.split)
  moreover have "\<forall>e w1. file_ext_of up \<in> allowed_types
          \<and> NamedTemporaryFile en (file_ext_of up) w = (Inl e, w1) \<longrightarrow>
        fst (snd (try_block en a up (file_ext_of up) w)) = None
        \<and> trace (snd (transcribe en a up w)) = trace w
        \<and> files (snd (transcribe en a up w)) = files w"
    by (auto simp: try_block_not_created transcribe_not_created logger_def)
  ultimately show ?thesis
    using finally_clause_no_raise transcribe_never_escapes by blast
qed

theorem cleanup_never_raises_witness:
  "file_ext_of upload_mp3 \<in> allowed_types
   \<and> NamedTemporaryFile (env_ok\<lparr>open_error := Some no_space\<rparr>) (file_ext_of upload_mp3) world0
       = (Inl no_space, world0)
   \<and> trace (snd (transcribe (env_ok\<lparr>open_error := Some no_space\<rparr>)
                   \<lparr>model = Some content_transcriber\<rparr> upload_mp3 world0)) = []
   \<and> finally_clause (env_ok\<lparr>unlink_error := Some permission_denied\<rparr>) (Some tmp_mp3) world_written
       = (None,
          \<lparr>files = [tmp_mp3 \<mapsto> ''  hello world  ''],
           logs = [(WARNING, ''Failed to delete temp file: [Errno 13] Permission denied'')],
           trace = [EvCreate tmp_mp3, EvUnlink tmp_mp3]\<rparr>)
   \<and> finally_clause env_ok (Some tmp_mp3) world0 = (None, world0)"
proof -
  let ?en = "env_ok\<lparr>open_error := Some no_space\<rparr>"
  let ?a = "\<lparr>model = Some content_transcriber\<rparr>"
  have acc: "file_ext_of upload_mp3 \<in> allowed_types" by (simp add: ext_mp3 mp3_allowed)
  have c: "NamedTemporaryFile ?en (file_ext_of upload_mp3) world0 = (Inl no_space, world0)"
    by (simp add: NamedTemporaryFile_def)
  note th = cleanup_never_raises [of ?en "Some tmp_mp3" world0 upload_mp3 ?a]
  from th acc c have "trace (snd (transcribe ?en ?a upload_mp3 world0)) = trace world0"
    by blast
  then have t: "trace (snd (transcribe ?en ?a upload_mp3 world0)) = []"
    by (simp add: world0_def)
  have f1: "finally_clause (env_ok\<lparr>unlink_error := Some permission_denied\<rparr>) (Some tmp_mp3)
        world_written
       = (None,
          \<lparr>files = [tmp_mp3 \<mapsto> ''  hello world  ''],
           logs = [(WARNING, ''Failed to delete temp file: [Errno 13] Permission denied'')],
           trace = [EvCreate tmp_mp3, EvUnlink tmp_mp3]\<rparr>)"
    by (simp add: handler_defs example_defs)
  have f2: "finally_clause env_ok (Some tmp_mp3) world0 = (None, world0)"
    by (simp add: handler_defs example_defs)
  from acc c t f1 f2 show ?thesis by simp
qed

section \<open>The text of a successful response\<close>




section \<open>Health and startup\<close>




section \<open>The life of the temp file\<close>

lemma create_ignores_unlink:
  "NamedTemporaryFile (en\<lparr>unlink_error := u\<rparr>) suf w = NamedTemporaryFile en suf w"
  by (simp add: NamedTemporaryFile_def cong: option.case_cong)

lemma with_block_ignores_unlink:
  "with_block (en\<lparr>unlink_error := u\<rparr>) up ext w = with_block en up ext w"
  by (simp add: with_block_def create_ignores_unlink Let_def
      cong: option.case_cong sum.case_cong prod.case_cong)

lemma try_block_ignores_unlink:
  "try_block (en\<lparr>unlink_error := u\<rparr>) a up ext w = try_block en a up ext w"
  by (simp add: try_block_def with_block_ignores_unlink)

lemma outcome_ignores_unlink:
  "fst (transcribe (en\<lparr>unlink_error := u\<rparr>) a up w) = fst (transcribe en a up w)"
proof (cases "file_ext_of up \<in> allowed_types")
  case True
  then show ?thesis by (simp add: transcribe_outcome try_block_ignores_unlink)
next
  case False
  then show ?thesis by (simp add: transcribe_rejected unsupported_detail_def)
qed

text \<open>
  C2, as the claim states it, fails for an accepted upload whose temp file cannot be
  created (here the disk is full): the request ends with 500 and no temp file has
  existed at any moment, so it is not the case that exactly one was created.
\<close>

theorem no_temp_file_counterexample:
  "file_ext_of upload_mp3 \<in> allowed_types
   \<and> transcribe (env_ok\<lparr>open_error := Some no_space\<rparr>) \<lparr>model = Some content_transcriber\<rparr>
        upload_mp3 world0
       = (RaisedHTTP 500 ''Transcription failed: [Errno 28] No space left on device'',
          \<lparr>files = Map.empty,
           logs = [(ERROR, ''Transcription error: [Errno 28] No space left on device'')],
           trace = []\<rparr>)"
  by (simp add: string_defs handler_defs example_defs)

text \<open>
  C2, amended. For an accepted upload at most one temp file is created: none when the
  creation fails, and otherwise exactly one, under a name that was free, followed by
  exactly one deletion attempt for that name after the transcriber call, whether the
  request succeeds or a later step fails. When the deletion succeeds the files on disk
  are those from before the request; when it fails the file stays, the last log line is
  the warning with the failure's message, and nothing else changes: the handler's
  outcome does not depend on how the deletion goes, and no exception escapes.
\<close>

theorem temp_file_lifecycle:
  assumes "file_ext_of up \<in> allowed_types"
  shows "(\<forall>e w1. NamedTemporaryFile en (file_ext_of up) w = (Inl e, w1) \<longrightarrow>
            trace (snd (transcribe en a up w)) = trace w
            \<and> files (snd (transcribe en a up w)) = files w)
       \<and> (\<forall>p wc. NamedTemporaryFile en (file_ext_of up) w = (Inr p, wc) \<longrightarrow>
            files w p = None
            \<and> (\<exists>mid. trace (snd (transcribe en a up w)) = trace w @ EvCreate p # mid @ [EvUnlink p]
                  \<and> (mid = [] \<or> mid = [EvTranscribe p ''en'']))
            \<and> (unlink_error en = None \<longrightarrow> files (snd (transcribe en a up w)) = files w)
            \<and> (\<forall>e. unlink_error en = Some e \<longrightarrow>
                  files (snd (transcribe en a up w)) p \<noteq> None
                  \<and> last (logs (snd (transcribe en a up w)))
                      = (WARNING, ''Failed to delete temp file: '' @ exc_str e)))
       \<and> (\<forall>u. fst (transcribe (en\<lparr>unlink_error := u\<rparr>) a up w) = fst (transcribe en a up w))
       \<and> (\<forall>x. fst (transcribe en a up w) \<noteq> Escaped x)"
proof -
  have 1: "\<forall>e w1. NamedTemporaryFile en (file_ext_of up) w = (Inl e, w1) \<longrightarrow>
            trace (snd (transcribe en a up w)) = trace w
            \<and> files (snd (transcribe en a up w)) = files w"
    using assms by (auto simp: transcribe_not_created logger_def)
  have 2: "\<forall>p wc. NamedTemporaryFile en (file_ext_of up) w = (Inr p, wc) \<longrightarrow>
            files w p = None
            \<and> (\<exists>mid. trace (snd (transcribe en a up w)) = trace w @ EvCreate p # mid @ [EvUnlink p]
                  \<and> (mid = [] \<or> mid = [EvTranscribe p ''en'']))
            \<and> (unlink_error en = None \<longrightarrow> files (snd (transcribe en a up w)) = files w)
            \<and> (\<forall>e. unlink_error en = Some e \<longrightarrow>
                  files (snd (transcribe en a up w)) p \<noteq> None
                  \<and> last (logs (snd (transcribe en a up w)))
                      = (WARNING, ''Failed to delete temp file: '' @ exc_str e))"
  proof (intro allI impI)
    fix p wc
    assume ntf: "NamedTemporaryFile en (file_ext_of up) w = (Inr p, wc)"
    obtain c lg mid where
      f: "files (snd (transcribe en a up w)) =
            (case unlink_error en of None \<Rightarrow> files w | Some e \<Rightarrow> (files w)(p \<mapsto> c))"
      and l: "logs (snd (transcribe en a up w)) =
            logs w @ lg @
              [case unlink_error en of
                 None \<Rightarrow> (INFO, ''Temporary file cleaned up'')
               | Some e \<Rightarrow> (WARNING, ''Failed to delete temp file: '' @ exc_str e)]"
      and t: "trace (snd (transcribe en a up w)) = trace w @ EvCreate p # mid @ [EvUnlink p]"
      and m: "mid = [] \<or> mid = [EvTranscribe p ''en'']"
      using transcribe_created [OF assms ntf, of a] by blast
    have a: "files w p = None" by (rule NamedTemporaryFile_creates(1) [OF ntf])
    have b: "\<exists>mid. trace (snd (transcribe en a up w)) = trace w @ EvCreate p # mid @ [EvUnlink p]
                  \<and> (mid = [] \<or> mid = [EvTranscribe p ''en''])"
      using t m by blast
    have c: "unlink_error en = None \<longrightarrow> files (snd (transcribe en a up w)) = files w"
      by (simp add: f)
    have d: "\<forall>e. unlink_error en = Some e \<longrightarrow>
                  files (snd (transcribe en a up w)) p \<noteq> None
                  \<and> last (logs (snd (transcribe en a up w)))
                      = (WARNING, ''Failed to delete temp file: '' @ exc_str e)"
      by (simp add: f l)
    from a b c d show "files w p = None
            \<and> (\<exists>mid. trace (snd (transcribe en a up w)) = trace w @ EvCreate p # mid @ [EvUnlink p]
                  \<and> (mid = [] \<or> mid = [EvTranscribe p ''en'']))
            \<and> (unlink_error en = None \<longrightarrow> files (snd (transcribe en a up w)) = files w)
            \<and> (\<forall>e. unlink_error en = Some e \<longrightarrow>
                  files (snd (transcribe en a up w)) p \<noteq> None
                  \<and> last (logs (snd (transcribe en a up w)))
                      = (WARNING, ''Failed to delete temp file: '' @ exc_str e))"
      by (intro conjI)
  qed
  have 3: "\<forall>u. fst (transcribe (en\<lparr>unlink_error := u\<rparr>) a up w) = fst (transcribe en a up w)"
    by (simp add: outcome_ignores_unlink)
  have 4: "\<forall>x. fst (transcribe en a up w) \<noteq> Escaped x"
    by (simp add: transcribe_never_escapes)
  from 1 2 3 4 show ?thesis by (intro conjI)
qed

theorem temp_file_lifecycle_witness:
  "file_ext_of upload_mp3 \<in> allowed_types
   \<and> NamedTemporaryFile env_ok (file_ext_of upload_mp3) world0 = (Inr tmp_mp3, world_created)
   \<and> unlink_error env_ok = None
   \<and> files (snd (transcribe env_ok \<lparr>model = Some content_transcriber\<rparr> upload_mp3 world0))
       = files world0
   \<and> trace (snd (transcribe env_ok \<lparr>model = Some content_transcriber\<rparr> upload_mp3 world0))
       = [EvCreate tmp_mp3, EvTranscribe tmp_mp3 ''en'', EvUnlink tmp_mp3]
   \<and> NamedTemporaryFile (env_ok\<lparr>unlink_error := Some permission_denied\<rparr>)
        (file_ext_of upload_mp3) world0 = (Inr tmp_mp3, world_created)
   \<and> unlink_error (env_ok\<lparr>unlink_error := Some permission_denied\<rparr>) = Some permission_denied
   \<and> last (logs (snd (transcribe (env_ok\<lparr>unlink_error := Some permission_denied\<rparr>)
                         \<lparr>model = Some content_transcriber\<rparr> upload_mp3 world0)))
       = (WARNING, ''Failed to delete temp file: [Errno 13] Permission denied'')
   \<and> fst (transcribe (env_ok\<lparr>unlink_error := Some permission_denied\<rparr>)
            \<lparr>model = Some content_transcriber\<rparr> upload_mp3 world0)
       = Returned (JSONResponse 200 [(''text'', PyStr ''hello world'')])
   \<and> NamedTemporaryFile (env_ok\<lparr>open_error := Some no_space\<rparr>) (file_ext_of upload_mp3) world0
       = (Inl no_space, world0)
   \<and> trace (snd (transcribe (env_ok\<lparr>open_error := Some no_space\<rparr>)
                   \<lparr>model = Some content_transcriber\<rparr> upload_mp3 world0)) = trace world0"
proof -
  let ?a = "\<lparr>model = Some content_transcriber\<rparr>"
  let ?ep = "env_ok\<lparr>unlink_error := Some permission_denied\<rparr>"
  let ?ef = "env_ok\<lparr>open_error := Some no_space\<rparr>"
  have acc: "file_ext_of upload_mp3 \<in> allowed_types" by (simp add: ext_mp3 mp3_allowed)
  have c: "NamedTemporaryFile env_ok (file_ext_of upload_mp3) world0 = (Inr tmp_mp3, world_created)"
    by (simp add: ext_mp3 create_mp3 env_ok_def)
  have cp: "NamedTemporaryFile ?ep (file_ext_of upload_mp3) world0 = (Inr tmp_mp3, world_created)"
    by (simp add: ext_mp3 create_mp3 env_ok_def)
  have cf: "NamedTemporaryFile ?ef (file_ext_of upload_mp3) world0 = (Inl no_space, world0)"
    by (simp add: NamedTemporaryFile_def)
  have u: "unlink_error env_ok = None" by (simp add: env_ok_def)
  have up: "unlink_error ?ep = Some permission_denied" by simp
  note th = temp_file_lifecycle [OF acc, of env_ok world0 ?a]
  note thp = temp_file_lifecycle [OF acc, of ?ep world0 ?a]
  note thf = temp_file_lifecycle [OF acc, of ?ef world0 ?a]
  note created = th [THEN conjunct2, THEN conjunct1, rule_format, OF c]
  note createdp = thp [THEN conjunct2, THEN conjunct1, rule_format, OF cp]
  have f: "files (snd (transcribe env_ok ?a upload_mp3 world0)) = files world0"
    using created u by blast
  have t: "trace (snd (transcribe env_ok ?a upload_mp3 world0))
       = [EvCreate tmp_mp3, EvTranscribe tmp_mp3 ''en'', EvUnlink tmp_mp3]"
    by (simp add: run_mp3 tmp_mp3_def)
  have "last (logs (snd (transcribe ?ep ?a upload_mp3 world0)))
       = (WARNING, ''Failed to delete temp file: '' @ exc_str permission_denied)"
    using createdp up by blast
  then have l: "last (logs (snd (transcribe ?ep ?a upload_mp3 world0)))
       = (WARNING, ''Failed to delete temp file: [Errno 13] Permission denied'')"
    by (simp add: permission_denied_def)
  have "fst (transcribe ?ep ?a upload_mp3 world0) = fst (transcribe env_ok ?a upload_mp3 world0)"
    using th [THEN conjunct2, THEN conjunct2, THEN conjunct1] by blast
  then have o: "fst (transcribe ?ep ?a upload_mp3 world0)
       = Returned (JSONResponse 200 [(''text'', PyStr ''hello world'')])"
    by (simp add: run_mp3)
  have n: "trace (snd (transcribe ?ef ?a upload_mp3 world0)) = trace world0"
    using thf [THEN conjunct1, rule_format, OF cf] by blast
  from acc c u f t cp up l o cf n show ?thesis by (intro conjI)
qed

section \<open>Repeating an upload\<close>

lemma io_creates:
  assumes "io_succeeds en up w"
  shows "\<exists>p wc. NamedTemporaryFile en (file_ext_of up) w = (Inr p, wc)"
proof -
  from assms have o: "open_error en = None"
    and n: "\<exists>n\<in>set (tmp_names en). files w (n @ file_ext_of up) = None"
    by (simp_all add: io_succeeds_def)
  from n have "find (\<lambda>p. files w p = None) (map (\<lambda>n. n @ file_ext_of up) (tmp_names en)) \<noteq> None"
    by (auto simp: find_None_iff)
  then obtain p where
    "find (\<lambda>p. files w p = None) (map (\<lambda>n. n @ file_ext_of up) (tmp_names en)) = Some p"
    by blast
  with o show ?thesis by (simp add: NamedTemporaryFile_def)
qed

lemma io_with_block:
  assumes "io_succeeds en up w"
  shows "\<exists>p w1 c. with_block en up (file_ext_of up) w = (Inr p, Some p, w1)
           \<and> read_result up = Inr c \<and> files w1 p = Some c"
proof -
  obtain p wc where ntf: "NamedTemporaryFile en (file_ext_of up) w = (Inr p, wc)"
    using io_creates [OF assms] by blast
  from assms obtain c where r: "read_result up = Inr c"
    by (cases "read_result up") (simp_all add: io_succeeds_def)
  from assms have e: "write_error en = None" "close_error en = None"
    by (simp_all add: io_succeeds_def)
  from ntf r e have "with_block en up (file_ext_of up) w
      = (Inr p, Some p, wc\<lparr>files := (files wc)(p \<mapsto> c)\<rparr>)"
    by (simp add: with_block_def)
  with r show ?thesis by simp
qed

lemma io_answer:
  assumes "io_succeeds en up w" and "model a = Some t" and "read_result up = Inr c"
  shows "\<exists>fs p. fs p = Some c
     \<and> fst (try_block en a up (file_ext_of up) w) =
         (case t fs p ''en'' of
            Inl e \<Rightarrow> Inl e
          | Inr result \<Rightarrow>
              (case get_text result of
                 Inl e \<Rightarrow> Inl e
               | Inr txt \<Rightarrow> Inr (JSONResponse 200 [(''text'', PyStr txt)])))"
proof -
  obtain p w1 c' where b: "with_block en up (file_ext_of up) w = (Inr p, Some p, w1)"
    and r: "read_result up = Inr c'" and f: "files w1 p = Some c'"
    using io_with_block [OF assms(1)] by blast
  from r assms(3) have "c' = c" by simp
  with f have "files w1 p = Some c" by simp
  then show ?thesis using try_block_answer [OF b assms(2)] by blast
qed

lemma try_block_ignores_history:
  "fst (try_block en a up ext (w\<lparr>logs := lg, trace := tr\<rparr>)) = fst (try_block en a up ext w)"
  by (simp add: try_block_def with_block_def NamedTemporaryFile_def model_transcribe_def
      logger_def emit_def Let_def split: option.split sum.split prod.split)

lemma outcome_ignores_history:
  "fst (transcribe en a up (w\<lparr>logs := lg, trace := tr\<rparr>)) = fst (transcribe en a up w)"
proof (cases "file_ext_of up \<in> allowed_types")
  case True
  then show ?thesis by (simp add: transcribe_outcome try_block_ignores_history)
next
  case False
  then show ?thesis by (simp add: transcribe_rejected)
qed

text \<open>
  C8. Take a transcriber whose answer depends only on the content of the file it is
  given, and submit the same upload twice, one request after the other, the file steps
  succeeding both times (the temp names may differ). The second request ends exactly as
  the first: the same response with the same text when the first succeeded. When both
  deletions succeed, the files on disk after the two requests are those from before the
  first. The outcome of a request does not depend on the log or on the calls recorded
  before it; the handler has no other memory, the module state being an argument it
  only reads.
\<close>

theorem repeated_upload_same_text:
  assumes acc: "file_ext_of up \<in> allowed_types"
    and io1: "io_succeeds en1 up w"
    and io2: "io_succeeds en2 up (snd (transcribe en1 a up w))"
    and m: "model a = Some t"
    and det: "\<forall>fs p fs' p'. fs p = fs' p' \<longrightarrow> t fs p ''en'' = t fs' p' ''en''"
  shows "fst (transcribe en2 a up (snd (transcribe en1 a up w))) = fst (transcribe en1 a up w)
       \<and> (unlink_error en1 = None \<and> unlink_error en2 = None \<longrightarrow>
            files (snd (transcribe en2 a up (snd (transcribe en1 a up w)))) = files w)
       \<and> (\<forall>lg tr. fst (transcribe en1 a up (w\<lparr>logs := lg, trace := tr\<rparr>))
                   = fst (transcribe en1 a up w))"
proof -
  let ?w1 = "snd (transcribe en1 a up w)"
  from io1 obtain c where r: "read_result up = Inr c"
    by (cases "read_result up") (simp_all add: io_succeeds_def)
  obtain fs p where a1: "fs p = Some c"
    and b1: "fst (try_block en1 a up (file_ext_of up) w) =
         (case t fs p ''en'' of
            Inl e \<Rightarrow> Inl e
          | Inr result \<Rightarrow>
              (case get_text result of
                 Inl e \<Rightarrow> Inl e
               | Inr txt \<Rightarrow> Inr (JSONResponse 200 [(''text'', PyStr txt)])))"
    using io_answer [OF io1 m r] by blast
  obtain fs' p' where a2: "fs' p' = Some c"
    and b2: "fst (try_block en2 a up (file_ext_of up) ?w1) =
         (case t fs' p' ''en'' of
            Inl e \<Rightarrow> Inl e
          | Inr result \<Rightarrow>
              (case get_text result of
                 Inl e \<Rightarrow> Inl e
               | Inr txt \<Rightarrow> Inr (JSONResponse 200 [(''text'', PyStr txt)])))"
    using io_answer [OF io2 m r] by blast
  from a1 a2 have "fs p = fs' p'" by simp
  then have "t fs p ''en'' = t fs' p' ''en''" by (rule det [rule_format])
  with b1 b2 have "fst (try_block en2 a up (file_ext_of up) ?w1)
      = fst (try_block en1 a up (file_ext_of up) w)"
    by simp
  then have same: "fst (transcribe en2 a up ?w1) = fst (transcribe en1 a up w)"
    by (simp add: transcribe_outcome [OF acc])
  have gone: "unlink_error en1 = None \<and> unlink_error en2 = None \<longrightarrow>
            files (snd (transcribe en2 a up ?w1)) = files w"
  proof
    assume u: "unlink_error en1 = None \<and> unlink_error en2 = None"
    obtain q wc where c1: "NamedTemporaryFile en1 (file_ext_of up) w = (Inr q, wc)"
      using io_creates [OF io1] by blast
    obtain q' wc' where c2: "NamedTemporaryFile en2 (file_ext_of up) ?w1 = (Inr q', wc')"
      using io_creates [OF io2] by blast
    have "files ?w1 = files w"
      using transcribe_created [OF acc c1, of a] u by auto
    moreover have "files (snd (transcribe en2 a up ?w1)) = files ?w1"
      using transcribe_created [OF acc c2, of a] u by auto
    ultimately show "files (snd (transcribe en2 a up ?w1)) = files w" by simp
  qed
  have hist: "\<forall>lg tr. fst (transcribe en1 a up (w\<lparr>logs := lg, trace := tr\<rparr>))
                   = fst (transcribe en1 a up w)"
    by (simp add: outcome_ignores_history)
  from same gone hist show ?thesis by (intro conjI)
qed

theorem repeated_upload_same_text_witness:
  "file_ext_of upload_mp3 \<in> allowed_types
   \<and> io_succeeds env_ok upload_mp3 world0
   \<and> io_succeeds (env_ok\<lparr>tmp_names := [''/tmp/tmp8f2q0zzz'']\<rparr>) upload_mp3
        (snd (transcribe env_ok \<lparr>model = Some content_transcriber\<rparr> upload_mp3 world0))
   \<and> model \<lparr>model = Some content_transcriber\<rparr> = Some content_transcriber
   \<and> fst (transcribe env_ok \<lparr>model = Some content_transcriber\<rparr> upload_mp3 world0)
       = Returned (JSONResponse 200 [(''text'', PyStr ''hello world'')])
   \<and> fst (transcribe (env_ok\<lparr>tmp_names := [''/tmp/tmp8f2q0zzz'']\<rparr>)
            \<lparr>model = Some content_transcriber\<rparr> upload_mp3
            (snd (transcribe env_ok \<lparr>model = Some content_transcriber\<rparr> upload_mp3 world0)))
       = Returned (JSONResponse 200 [(''text'', PyStr ''hello world'')])
   \<and> files (snd (transcribe (env_ok\<lparr>tmp_names := [''/tmp/tmp8f2q0zzz'']\<rparr>)
                   \<lparr>model = Some content_transcriber\<rparr> upload_mp3
                   (snd (transcribe env_ok \<lparr>model = Some content_transcriber\<rparr> upload_mp3
                          world0))))
       = files world0"
proof -
  let ?a = "\<lparr>model = Some content_transcriber\<rparr>"
  let ?e2 = "env_ok\<lparr>tmp_names := [''/tmp/tmp8f2q0zzz'']\<rparr>"
  let ?w1 = "snd (transcribe env_ok ?a upload_mp3 world0)"
  have acc: "file_ext_of upload_mp3 \<in> allowed_types" by (simp add: ext_mp3 mp3_allowed)
  have io1: "io_succeeds env_ok upload_mp3 world0"
    by (simp add: io_succeeds_def env_ok_def upload_mp3_def world0_def)
  have io2: "io_succeeds ?e2 upload_mp3 ?w1"
    by (simp add: io_succeeds_def run_mp3) (simp add: env_ok_def upload_mp3_def)
  have m: "model ?a = Some content_transcriber" by simp
  have det: "\<forall>fs p fs' p'. fs p = fs' p' \<longrightarrow>
          content_transcriber fs p ''en'' = content_transcriber fs' p' ''en''"
    by (simp add: content_transcriber_def)
  have u: "unlink_error env_ok = None \<and> unlink_error ?e2 = None" by (simp add: env_ok_def)
  note th = repeated_upload_same_text [OF acc io1 io2 m det]
  have o1: "fst (transcribe env_ok ?a upload_mp3 world0)
       = Returned (JSONResponse 200 [(''text'', PyStr ''hello world'')])"
    by (simp add: run_mp3)
  have "fst (transcribe ?e2 ?a upload_mp3 ?w1) = fst (transcribe env_ok ?a upload_mp3 world0)"
    by (rule th [THEN conjunct1])
  with o1 have o2: "fst (transcribe ?e2 ?a upload_mp3 ?w1)
       = Returned (JSONResponse 200 [(''text'', PyStr ''hello world'')])"
    by (simp only:)
  have f: "files (snd (transcribe ?e2 ?a upload_mp3 ?w1)) = files world0"
    by (rule th [THEN conjunct2, THEN conjunct1, rule_format, OF u])
  from acc io1 io2 m o1 o2 f show ?thesis by (intro conjI)
qed

end
